theory Spec2Isabelle
  imports Main
begin

section \<open>Values of the bridge: JSON as Python sees it\<close>

text \<open>
  \<^verbatim>\<open>main.py\<close> reads one JSON document per line with \<^verbatim>\<open>json.loads\<close> and works on the
  Python value it gets. A Python \<^verbatim>\<open>str\<close> is modelled as the list of its code points,
  as far as \<^typ>\<open>char\<close> offers them (below 256). The program never computes with a
  float: it only tests its truth value and formats it, so a float is the pair of what
  these two operations observe.
\<close>

datatype pyfloat = PyFloat (is_zero: bool) (float_repr: string)

datatype json =
    JNull
  | JBool bool
  | JInt int
  | JFloat pyfloat
  | JStr string
  | JArr "json list"
  | JObj "(string \<times> json) list"

text \<open>Python's \<^verbatim>\<open>bool(v)\<close>, which \<^verbatim>\<open>if not file_path\<close> applies.\<close>

fun truthy :: "json \<Rightarrow> bool" where
  "truthy JNull = False"
| "truthy (JBool b) = b"
| "truthy (JInt i) = (i \<noteq> 0)"
| "truthy (JFloat f) = (\<not> is_zero f)"
| "truthy (JStr s) = (s \<noteq> [])"
| "truthy (JArr xs) = (xs \<noteq> [])"
| "truthy (JObj d) = (d \<noteq> [])"

text \<open>\<^verbatim>\<open>type(v).__name__\<close>, which the interpreter's error messages quote.\<close>

fun py_type_name :: "json \<Rightarrow> string" where
  "py_type_name JNull = ''NoneType''"
| "py_type_name (JBool b) = ''bool''"
| "py_type_name (JInt i) = ''int''"
| "py_type_name (JFloat f) = ''float''"
| "py_type_name (JStr s) = ''str''"
| "py_type_name (JArr xs) = ''list''"
| "py_type_name (JObj d) = ''dict''"

text \<open>\<^verbatim>\<open>d.get(k)\<close>: the value under the key, \<^verbatim>\<open>None\<close> when the key is absent.\<close>

definition get :: "(string \<times> json) list \<Rightarrow> string \<Rightarrow> json" where
  "get d k = (case map_of d k of None \<Rightarrow> JNull | Some v \<Rightarrow> v)"

subsection \<open>Formatting: \<^verbatim>\<open>str\<close> and \<^verbatim>\<open>repr\<close>\<close>

text \<open>
  The f-strings \<^verbatim>\<open>f'sub_track {track_id}'\<close> and \<^verbatim>\<open>f'audio_track {track_id}'\<close> format
  whatever value the key holds with \<^verbatim>\<open>str\<close>; inside a list or a dict Python formats
  the elements with \<^verbatim>\<open>repr\<close>.
\<close>

text \<open>
  Decimal digits of an integer, and \<^verbatim>\<open>repr\<close> of a \<^verbatim>\<open>str\<close> as CPython writes it: single
  quotes unless the text holds a single quote and no double quote; the quote in use and
  the backslash escaped; tab, newline and carriage return as \<^verbatim>\<open>\t\<close>, \<^verbatim>\<open>\n\<close>, \<^verbatim>\<open>\r\<close>; any
  other code point that is not printable as \<^verbatim>\<open>\xNN\<close> with lower-case digits.
\<close>

definition digit_char :: "nat \<Rightarrow> char" where
  "digit_char n = ''0123456789abcdef'' ! n"

fun str_nat :: "nat \<Rightarrow> string" where
  "str_nat n = (if n < 10 then [digit_char n] else str_nat (n div 10) @ [digit_char (n mod 10)])"

declare str_nat.simps [simp del]

definition str_int :: "int \<Rightarrow> string" where
  "str_int i = (if i < 0 then ''-'' @ str_nat (nat (- i)) else str_nat (nat i))"

definition squote :: char where "squote = CHR 0x27"
definition dquote :: char where "dquote = CHR 0x22"
definition bslash :: char where "bslash = CHR 0x5C"

text \<open>\<^verbatim>\<open>str.isprintable\<close> on the code points below 256.\<close>

definition is_printable :: "char \<Rightarrow> bool" where
  "is_printable c =
     (let n = (of_char c :: nat) in (32 \<le> n \<and> n < 127) \<or> (161 \<le> n \<and> n \<noteq> 173))"

definition repr_char :: "char \<Rightarrow> char \<Rightarrow> string" where
  "repr_char q c =
     (if c = q \<or> c = bslash then [bslash, c]
      else if c = CHR 0x09 then [bslash, CHR ''t'']
      else if c = CHR 0x0A then [bslash, CHR ''n'']
      else if c = CHR 0x0D then [bslash, CHR ''r'']
      else if is_printable c then [c]
      else [bslash, CHR ''x'', digit_char (of_char c div 16), digit_char (of_char c mod 16)])"

definition repr_str :: "string \<Rightarrow> string" where
  "repr_str s =
     (let q = (if squote \<in> set s \<and> dquote \<notin> set s then dquote else squote)
      in [q] @ concat (map (repr_char q) s) @ [q])"

fun join :: "string \<Rightarrow> string list \<Rightarrow> string" where
  "join sep [] = []"
| "join sep [x] = x"
| "join sep (x # y # ys) = x @ sep @ join sep (y # ys)"

fun py_repr :: "json \<Rightarrow> string" where
  "py_repr JNull = ''None''"
| "py_repr (JBool b) = (if b then ''True'' else ''False'')"
| "py_repr (JInt i) = str_int i"
| "py_repr (JFloat f) = float_repr f"
| "py_repr (JStr s) = repr_str s"
| "py_repr (JArr xs) = ''['' @ join '', '' (map py_repr xs) @ '']''"
| "py_repr (JObj d) =
     ''{'' @ join '', '' (map (\<lambda>kv. repr_str (fst kv) @ '': '' @ py_repr (snd kv)) d) @ ''}''"

definition py_str :: "json \<Rightarrow> string" where
  "py_str v = (case v of JStr s \<Rightarrow> s | _ \<Rightarrow> py_repr v)"

section \<open>The world outside the process\<close>

text \<open>
  The bridge owns two globals, \<^verbatim>\<open>vlc_process\<close> and \<^verbatim>\<open>current_file\<close>. A process handle
  is the identifier of the process that \<^verbatim>\<open>subprocess.Popen\<close> started.
\<close>

record state =
  vlc_process :: "nat option"
  current_file :: "string option"

text \<open>
  What the operating system answers while one command is processed. A command connects
  to the RC socket at most once, waits for at most one process and spawns at most one, so
  one answer of each kind is enough.
  \<^item> \<open>rc\<close>: the connect and \<^verbatim>\<open>sendall\<close> succeed, the connection is refused, or anything
    else is raised, with its \<^verbatim>\<open>str\<close>;
  \<^item> \<open>wait_expires\<close>: \<^verbatim>\<open>vlc_process.wait(timeout=2)\<close> raises \<^verbatim>\<open>TimeoutExpired\<close>;
  \<^item> \<open>popen\<close>: \<^verbatim>\<open>Popen\<close> returns a handle (and \<^verbatim>\<open>poll()\<close> three seconds later finds the
    process exited or not), raises \<^verbatim>\<open>FileNotFoundError\<close>, or raises anything else, with
    its \<^verbatim>\<open>str\<close>.
\<close>

datatype rc_outcome = RcOk | RcRefused | RcFailed string

datatype popen_outcome = Started nat bool | NotFound | PopenFailed string

record env =
  rc :: rc_outcome
  wait_expires :: bool
  popen :: popen_outcome

text \<open>
  Exceptions that leave \<^verbatim>\<open>process_command\<close>; the string is the type name of the value
  the operation was applied to.
\<close>

datatype exn = AttributeError string | TypeError string | TimeoutExpired

text \<open>
  What the process does to the outside, in order. \<open>Stdout v\<close> is
  \<^verbatim>\<open>print(json.dumps(v), flush=True)\<close>: one line, flushed; every print to standard output
  in the source has this form. \<open>Stderr\<close> is a line on the diagnostic stream;
  \<open>StderrUnhandled e\<close> is the line \<^verbatim>\<open>Unhandled error in main loop: \<close> followed by the
  interpreter's text for \<open>e\<close>. \<open>Sleep\<close> counts milliseconds. \<open>RcSend\<close> is the text written
  to a fresh connection to 127.0.0.1:44444. \<open>Popen\<close> is the call with its argument list.
\<close>

datatype event =
    Stdout json
  | Stderr string
  | StderrUnhandled exn
  | Sleep nat
  | RcSend string
  | Popen "string list"
  | Terminate nat
  | Wait nat

definition RC_HOST :: string where "RC_HOST = ''127.0.0.1''"
definition RC_PORT :: int where "RC_PORT = 44444"

section \<open>The player controller\<close>

definition send_rc_command :: "rc_outcome \<Rightarrow> string \<Rightarrow> string \<times> event list" where
  "send_rc_command outcome command =
     (case outcome of
        RcOk \<Rightarrow> (''OK'', [Sleep 50, RcSend (command @ [CHR 0x0A])])
      | RcRefused \<Rightarrow>
          (''ERROR: RC not connected'',
           [Sleep 50,
            Stderr (''ERROR: Could not connect to VLC RC interface at '' @ RC_HOST @ '':''
                    @ str_int RC_PORT @ ''. VLC may be closed.'')])
      | RcFailed e \<Rightarrow>
          (''ERROR: '' @ e, [Sleep 50, Stderr (''ERROR: RC communication failed: '' @ e)]))"

definition vlc_args :: "string \<Rightarrow> string list" where
  "vlc_args file_path =
     [''vlc'', ''--intf=rc'', ''--rc-host='' @ RC_HOST @ '':'' @ str_int RC_PORT,
      ''--rc-quiet'', ''--fullscreen'', file_path]"

definition not_found_msg :: string where
  "not_found_msg =
     ''VLC executable not found. Since '' @ [squote] @ ''vlc'' @ [squote]
     @ '' is in PATH, try using the absolute path (e.g., '' @ [squote] @ ''C:'' @ [bslash]
     @ ''Program Files'' @ [bslash] @ ''VideoLAN'' @ [bslash] @ ''VLC'' @ [bslash]
     @ ''vlc.exe'' @ [squote] @ '') instead of '' @ [squote] @ ''vlc'' @ [squote] @ ''.''"

definition died_msg :: string where
  "died_msg =
     ''VLC process died immediately. Check if '' @ [squote] @ ''vlc'' @ [squote]
     @ '' command is in your system PATH or use its absolute path.''"

definition error_result :: "string \<Rightarrow> json" where
  "error_result msg = JObj [(''error'', JStr msg)]"

text \<open>
  The generic handler of \<^verbatim>\<open>start_vlc_rc\<close> (\<^verbatim>\<open>except Exception as e\<close>), with the text of
  \<open>e\<close>: it terminates and forgets the handle the global holds, if any, and reports.
\<close>

definition start_failed :: "string \<Rightarrow> state \<Rightarrow> state \<times> event list" where
  "start_failed e s =
     (let error_msg = ''Failed to start external VLC process: '' @ e
      in (s\<lparr>vlc_process := None\<rparr>,
          (case vlc_process s of None \<Rightarrow> [] | Some p \<Rightarrow> [Terminate p])
          @ [Stderr (''ERROR: '' @ error_msg), Stdout (error_result error_msg)]))"

definition start_vlc_rc :: "env \<Rightarrow> string \<Rightarrow> state \<Rightarrow> exn option \<times> state \<times> event list" where
  "start_vlc_rc e file_path s =
     (let (x1, s1, t1) =
        (case vlc_process s of
           None \<Rightarrow> (None, s, [])
         | Some p \<Rightarrow>
             (let t = snd (send_rc_command (rc e) ''stop'') @ [Terminate p, Wait p]
              in if wait_expires e then (Some TimeoutExpired, s, t)
                 else (None, s\<lparr>vlc_process := None\<rparr>, t @ [Sleep 500])))
      in case x1 of
           Some x \<Rightarrow> (Some x, s1, t1)
         | None \<Rightarrow>
             (let s2 = s1\<lparr>current_file := Some file_path\<rparr>;
                  t2 = t1 @ [Popen (vlc_args file_path)]
              in case popen e of
                   NotFound \<Rightarrow>
                     (None, s2,
                      t2 @ [Stderr (''ERROR: '' @ not_found_msg), Stdout (error_result not_found_msg)])
                 | PopenFailed m \<Rightarrow>
                     (let (s3, t3) = start_failed m s2 in (None, s3, t2 @ t3))
                 | Started p exited \<Rightarrow>
                     (let s3 = s2\<lparr>vlc_process := Some p\<rparr>; t3 = t2 @ [Sleep 3000]
                      in if exited
                         then (let (s4, t4) = start_failed died_msg s3 in (None, s4, t3 @ t4))
                         else (None, s3,
                               t3 @ [Stdout (JObj [(''status'', JStr ''playing''),
                                   (''message'', JStr ''VLC launched externally with RC interface.'')])]))))"

section \<open>The command loop\<close>

definition process_command :: "env \<Rightarrow> json \<Rightarrow> state \<Rightarrow> exn option \<times> state \<times> event list" where
  "process_command e command_data s =
     (case command_data of
        JObj d \<Rightarrow>
          (let command = get d ''command'' in
           if command = JStr ''load'' then
             (let file_path = get d ''file_path'' in
              if \<not> truthy file_path
              then (None, s, [Stdout (error_result ''Missing file path'')])
              else (case file_path of
                      JStr p \<Rightarrow> start_vlc_rc e p s
                    | _ \<Rightarrow> (Some (TypeError (py_type_name file_path)), s, [])))
           else if command = JStr ''play_pause'' then
             (let (response, t) = send_rc_command (rc e) ''pause''
              in (None, s,
                  t @ [Stdout (JObj [(''status'', JStr ''toggled''), (''rc_response'', JStr response)])]))
           else if command = JStr ''stop'' then
             (let (response, t) = send_rc_command (rc e) ''stop''
              in (None, s\<lparr>vlc_process := None\<rparr>,
                  t @ (case vlc_process s of None \<Rightarrow> [] | Some p \<Rightarrow> [Terminate p])
                  @ [Stdout (JObj [(''status'', JStr ''stopped''), (''rc_response'', JStr response)])]))
           else if command = JStr ''set_subtitle'' then
             (let track_id = get d ''track_id'';
                  (response, t) = send_rc_command (rc e) (''sub_track '' @ py_str track_id)
              in (None, s,
                  t @ [Stdout (JObj [(''status'', JStr ''subtitle_set''), (''id'', track_id),
                                     (''rc_response'', JStr response)])]))
           else if command = JStr ''set_audio'' then
             (let track_id = get d ''track_id'';
                  (response, t) = send_rc_command (rc e) (''audio_track '' @ py_str track_id)
              in (None, s,
                  t @ [Stdout (JObj [(''status'', JStr ''audio_set''), (''id'', track_id),
                                     (''rc_response'', JStr response)])]))
           else (None, s, [Stdout (error_result ''Unknown command'')]))
      | _ \<Rightarrow> (Some (AttributeError (py_type_name command_data)), s, []))"

text \<open>
  An input line is what \<^verbatim>\<open>json.loads(line.strip())\<close> makes of it: a value, or a
  \<^verbatim>\<open>JSONDecodeError\<close> with its text.
\<close>

datatype line = BadJson string | Json json

text \<open>The body of the loop over standard input, for one line.\<close>

definition loop_body :: "env \<Rightarrow> line \<Rightarrow> state \<Rightarrow> state \<times> event list" where
  "loop_body e l s =
     (case l of
        BadJson m \<Rightarrow> (s, [Stderr (''Error decoding JSON: '' @ m)])
      | Json command_data \<Rightarrow>
          (case process_command e command_data s of
             (None, s', t) \<Rightarrow> (s', t)
           | (Some x, s', t) \<Rightarrow> (s', t @ [StderrUnhandled x])))"

text \<open>
  The loop, over the lines that arrive before standard input closes, each with the
  answers of the operating system while it is processed.
\<close>

fun main_loop :: "(line \<times> env) list \<Rightarrow> state \<Rightarrow> state \<times> event list" where
  "main_loop [] s = (s, [])"
| "main_loop ((l, e) # rest) s =
     (let (s', t) = loop_body e l s; (s'', t') = main_loop rest s' in (s'', t @ t'))"

definition initial :: state where
  "initial = \<lparr>vlc_process = None, current_file = None\<rparr>"

definition main :: "(line \<times> env) list \<Rightarrow> state \<times> event list" where
  "main inputs =
     (let (s, t) = main_loop inputs initial
      in (s, Stderr ''External VLC RC control initialized successfully'' # t))"

subsection \<open>Observations on a trace\<close>

fun stdout_lines :: "event list \<Rightarrow> json list" where
  "stdout_lines [] = []"
| "stdout_lines (Stdout v # t) = v # stdout_lines t"
| "stdout_lines (_ # t) = stdout_lines t"

fun rc_sent :: "event list \<Rightarrow> string list" where
  "rc_sent [] = []"
| "rc_sent (RcSend x # t) = x # rc_sent t"
| "rc_sent (_ # t) = rc_sent t"

fun spawns :: "event list \<Rightarrow> string list list" where
  "spawns [] = []"
| "spawns (Popen a # t) = a # spawns t"
| "spawns (_ # t) = spawns t"

fun terminated :: "event list \<Rightarrow> nat list" where
  "terminated [] = []"
| "terminated (Terminate p # t) = p # terminated t"
| "terminated (_ # t) = terminated t"

fun diagnostics :: "event list \<Rightarrow> event list" where
  "diagnostics [] = []"
| "diagnostics (Stderr m # t) = Stderr m # diagnostics t"
| "diagnostics (StderrUnhandled x # t) = StderrUnhandled x # diagnostics t"
| "diagnostics (_ # t) = diagnostics t"

section \<open>Facts about traces\<close>

lemma stdout_lines_append [simp]: "stdout_lines (a @ b) = stdout_lines a @ stdout_lines b"
  by (induction a rule: stdout_lines.induct) simp_all

lemma rc_sent_append [simp]: "rc_sent (a @ b) = rc_sent a @ rc_sent b"
  by (induction a rule: rc_sent.induct) simp_all

lemma spawns_append [simp]: "spawns (a @ b) = spawns a @ spawns b"
  by (induction a rule: spawns.induct) simp_all

lemma terminated_append [simp]: "terminated (a @ b) = terminated a @ terminated b"
  by (induction a rule: terminated.induct) simp_all

lemma diagnostics_append [simp]: "diagnostics (a @ b) = diagnostics a @ diagnostics b"
  by (induction a rule: diagnostics.induct) simp_all

text \<open>An RC send prints no result, spawns nothing and terminates nothing.\<close>

lemma send_rc_command_quiet [simp]:
  "stdout_lines (snd (send_rc_command outcome c)) = []"
  "spawns (snd (send_rc_command outcome c)) = []"
  "terminated (snd (send_rc_command outcome c)) = []"
  by (cases outcome; simp add: send_rc_command_def)+

lemma send_rc_command_sent:
  "rc_sent (snd (send_rc_command outcome c)) = (if outcome = RcOk then [c @ [CHR 0x0A]] else [])"
  by (cases outcome; simp add: send_rc_command_def)

lemma start_failed_stdout [simp]:
  "stdout_lines (snd (start_failed m s)) =
     [error_result (''Failed to start external VLC process: '' @ m)]"
  by (cases "vlc_process s"; simp add: start_failed_def Let_def)

lemma start_failed_state [simp]: "fst (start_failed m s) = s\<lparr>vlc_process := None\<rparr>"
  by (simp add: start_failed_def Let_def)

text \<open>
  \<^verbatim>\<open>start_vlc_rc\<close> raises only when the wait for the previous process times out, which
  happens outside its \<^verbatim>\<open>try\<close>; on every other path it prints one result.
\<close>

lemma start_vlc_rc_raises:
  "fst (start_vlc_rc e p s) =
     (if vlc_process s \<noteq> None \<and> wait_expires e then Some TimeoutExpired else None)"
  by (cases "vlc_process s"; cases "popen e"; simp add: start_vlc_rc_def Let_def split_beta)

lemma start_vlc_rc_lines:
  "length (stdout_lines (snd (snd (start_vlc_rc e p s)))) =
     (if vlc_process s \<noteq> None \<and> wait_expires e then 0 else 1)"
  by (cases "vlc_process s"; cases "popen e"; simp add: start_vlc_rc_def Let_def split_beta)

lemma start_vlc_rc_no_line:
  "vlc_process s = Some a \<Longrightarrow> wait_expires e \<Longrightarrow>
   stdout_lines (snd (snd (start_vlc_rc e p s))) = []"
  using start_vlc_rc_lines [of e p s] by simp

lemma process_command_raises:
  "fst (process_command e v s) \<noteq> None \<longleftrightarrow>
     (case v of
        JObj d \<Rightarrow>
          get d ''command'' = JStr ''load'' \<and> truthy (get d ''file_path'') \<and>
          (case get d ''file_path'' of
             JStr p \<Rightarrow> vlc_process s \<noteq> None \<and> wait_expires e
           | _ \<Rightarrow> True)
      | _ \<Rightarrow> True)"
  by (cases v; simp add: process_command_def Let_def split_beta start_vlc_rc_raises
      split: json.splits)

lemma process_command_lines:
  "length (stdout_lines (snd (snd (process_command e v s)))) =
     (if fst (process_command e v s) = None then 1 else 0)"
  by (cases v; cases "vlc_process s";
      simp add: process_command_def Let_def split_beta start_vlc_rc_raises start_vlc_rc_lines
        start_vlc_rc_no_line split: json.splits)

lemma loop_body_Json:
  "loop_body e (Json v) s =
     (fst (snd (process_command e v s)),
      snd (snd (process_command e v s))
      @ (case fst (process_command e v s) of None \<Rightarrow> [] | Some x \<Rightarrow> [StderrUnhandled x]))"
  by (simp add: loop_body_def split: prod.splits option.splits)

lemma main_loop_Cons:
  "main_loop ((l, e) # rest) s =
     (fst (main_loop rest (fst (loop_body e l s))),
      snd (loop_body e l s) @ snd (main_loop rest (fst (loop_body e l s))))"
  by (simp add: split_beta)

section \<open>One result line per dispatched command\<close>

text \<open>
  C1, as the code has it. For every input line that parses as JSON the loop writes at most
  one result line, flushed, and everything it does for this line comes before anything it
  does for the next: exactly one result line when \<^verbatim>\<open>process_command\<close> returns, none when
  it raises. It raises exactly when the value is not an object, or the command is
  \<^verbatim>\<open>load\<close> with a file path that is truthy and not a string (\<^verbatim>\<open>Path(file_path)\<close> raises
  \<^verbatim>\<open>TypeError\<close>), or \<^verbatim>\<open>load\<close> with a non-empty string while a process is tracked and the
  wait for its termination times out.
\<close>

theorem loop_body_result_lines:
  "length (stdout_lines (snd (loop_body e (Json v) s))) =
     (if fst (process_command e v s) = None then 1 else 0)
   \<and> (fst (process_command e v s) \<noteq> None \<longleftrightarrow>
        (case v of
           JObj d \<Rightarrow>
             get d ''command'' = JStr ''load'' \<and> truthy (get d ''file_path'') \<and>
             (case get d ''file_path'' of
                JStr p \<Rightarrow> vlc_process s \<noteq> None \<and> wait_expires e
              | _ \<Rightarrow> True)
         | _ \<Rightarrow> True))
   \<and> snd (main_loop ((Json v, e) # rest) s) =
       snd (loop_body e (Json v) s) @ snd (main_loop rest (fst (loop_body e (Json v) s)))"
proof (intro conjI)
  show "length (stdout_lines (snd (loop_body e (Json v) s))) =
     (if fst (process_command e v s) = None then 1 else 0)"
    using process_command_lines [of e v s]
    by (cases "fst (process_command e v s)") (simp_all add: loop_body_Json)
  show "fst (process_command e v s) \<noteq> None \<longleftrightarrow>
        (case v of
           JObj d \<Rightarrow>
             get d ''command'' = JStr ''load'' \<and> truthy (get d ''file_path'') \<and>
             (case get d ''file_path'' of
                JStr p \<Rightarrow> vlc_process s \<noteq> None \<and> wait_expires e
              | _ \<Rightarrow> True)
         | _ \<Rightarrow> True)"
    by (rule process_command_raises)
  show "snd (main_loop ((Json v, e) # rest) s) =
       snd (loop_body e (Json v) s) @ snd (main_loop rest (fst (loop_body e (Json v) s)))"
    by (simp add: split_beta)
qed

text \<open>
  The theorem at \<^verbatim>\<open>{"command": "play_pause"}\<close> with no player listening: dispatch returns
  and one line is written.
\<close>

theorem loop_body_result_lines_witness:
  "length (stdout_lines (snd (loop_body \<lparr>rc = RcRefused, wait_expires = False, popen = NotFound\<rparr>
       (Json (JObj [(''command'', JStr ''play_pause'')])) initial))) = 1
   \<and> fst (process_command \<lparr>rc = RcRefused, wait_expires = False, popen = NotFound\<rparr>
       (JObj [(''command'', JStr ''play_pause'')]) initial) = None"
  using loop_body_result_lines [of "\<lparr>rc = RcRefused, wait_expires = False, popen = NotFound\<rparr>"
      "JObj [(''command'', JStr ''play_pause'')]" initial "[]"]
  by (simp add: get_def)

text \<open>
  C1 as stated fails at the line \<^verbatim>\<open>{"command": "load", "file_path": 5}\<close>: it parses, the
  command is known, and no result line is written.
\<close>

theorem load_number_no_result_line:
  "stdout_lines (snd (loop_body \<lparr>rc = RcOk, wait_expires = False, popen = Started 1 False\<rparr>
       (Json (JObj [(''command'', JStr ''load''), (''file_path'', JInt 5)])) initial)) = []"
  by (simp add: loop_body_def process_command_def get_def)

section \<open>Stop\<close>

lemma send_rc_command_response:
  "fst (send_rc_command outcome c) =
     (case outcome of RcOk \<Rightarrow> ''OK'' | RcRefused \<Rightarrow> ''ERROR: RC not connected''
      | RcFailed m \<Rightarrow> ''ERROR: '' @ m)"
  by (cases outcome; simp add: send_rc_command_def)

text \<open>
  C2, as the code has it. From every state, \<^verbatim>\<open>stop\<close> calls the RC send with the token
  \<^verbatim>\<open>stop\<close> (which writes \<^verbatim>\<open>stop\<close> and a newline when the connection succeeds), then
  terminates the tracked process if there is one, sets the process handle to null, and
  prints \<^verbatim>\<open>{"status": "stopped", "rc_response": ...}\<close> with the string the send returned,
  whether the send succeeded or not. The loaded media path is left as it was:
  \<^verbatim>\<open>process_command\<close> never assigns \<^verbatim>\<open>current_file\<close>.
\<close>

theorem stop_terminates_and_forgets_handle:
  assumes "get d ''command'' = JStr ''stop''"
  shows "fst (process_command e (JObj d) s) = None
    \<and> snd (snd (process_command e (JObj d) s)) =
        snd (send_rc_command (rc e) ''stop'')
        @ (case vlc_process s of None \<Rightarrow> [] | Some p \<Rightarrow> [Terminate p])
        @ [Stdout (JObj [(''status'', JStr ''stopped''),
                         (''rc_response'', JStr (fst (send_rc_command (rc e) ''stop'')))])]
    \<and> rc_sent (snd (snd (process_command e (JObj d) s))) =
        (if rc e = RcOk then [''stop'' @ [CHR 0x0A]] else [])
    \<and> terminated (snd (snd (process_command e (JObj d) s))) =
        (case vlc_process s of None \<Rightarrow> [] | Some p \<Rightarrow> [p])
    \<and> vlc_process (fst (snd (process_command e (JObj d) s))) = None
    \<and> current_file (fst (snd (process_command e (JObj d) s))) = current_file s"
  using assms
  by (cases "vlc_process s")
     (simp_all add: process_command_def Let_def split_beta send_rc_command_sent)

text \<open>
  The theorem at a state that tracks process 7 playing \<^verbatim>\<open>a.mkv\<close>, with the RC connection
  refused.
\<close>

theorem stop_terminates_and_forgets_handle_witness:
  "get [(''command'', JStr ''stop'')] ''command'' = JStr ''stop''
   \<and> fst (process_command \<lparr>rc = RcRefused, wait_expires = False, popen = NotFound\<rparr>
        (JObj [(''command'', JStr ''stop'')])
        \<lparr>vlc_process = Some 7, current_file = Some ''a.mkv''\<rparr>) = None
   \<and> snd (snd (process_command \<lparr>rc = RcRefused, wait_expires = False, popen = NotFound\<rparr>
        (JObj [(''command'', JStr ''stop'')])
        \<lparr>vlc_process = Some 7, current_file = Some ''a.mkv''\<rparr>)) =
       [Sleep 50,
        Stderr ''ERROR: Could not connect to VLC RC interface at 127.0.0.1:44444. VLC may be closed.'',
        Terminate 7,
        Stdout (JObj [(''status'', JStr ''stopped''),
                      (''rc_response'', JStr ''ERROR: RC not connected'')])]
   \<and> fst (snd (process_command \<lparr>rc = RcRefused, wait_expires = False, popen = NotFound\<rparr>
        (JObj [(''command'', JStr ''stop'')])
        \<lparr>vlc_process = Some 7, current_file = Some ''a.mkv''\<rparr>)) =
       \<lparr>vlc_process = None, current_file = Some ''a.mkv''\<rparr>"
proof -
  have h: "get [(''command'', JStr ''stop'')] ''command'' = JStr ''stop''"
    by (simp add: get_def)
  have port: "str_int RC_PORT = ''44444''"
    by (simp add: RC_PORT_def str_int_def str_nat.simps digit_char_def)
  show ?thesis
    using h stop_terminates_and_forgets_handle [OF h,
        of "\<lparr>rc = RcRefused, wait_expires = False, popen = NotFound\<rparr>"
           "\<lparr>vlc_process = Some 7, current_file = Some ''a.mkv''\<rparr>"]
    by (simp add: send_rc_command_def RC_HOST_def port)
qed

text \<open>
  C2 as stated fails after \<^verbatim>\<open>load\<close> of \<^verbatim>\<open>a.mkv\<close> followed by \<^verbatim>\<open>stop\<close>: the media path is
  still \<^verbatim>\<open>a.mkv\<close>, not null.
\<close>

theorem stop_keeps_current_file:
  "current_file (fst (main
     [(Json (JObj [(''command'', JStr ''load''), (''file_path'', JStr ''a.mkv'')]),
       \<lparr>rc = RcOk, wait_expires = False, popen = Started 7 False\<rparr>),
      (Json (JObj [(''command'', JStr ''stop'')]),
       \<lparr>rc = RcOk, wait_expires = False, popen = Started 7 False\<rparr>)])) = Some ''a.mkv''"
  by (simp add: main_def initial_def loop_body_def process_command_def start_vlc_rc_def
      get_def send_rc_command_def Let_def)

section \<open>Load\<close>

text \<open>
  C3, as the code has it. When a \<^verbatim>\<open>load\<close> with a non-empty string path reaches the spawn
  (no process was tracked, or the wait for the old one did not time out) and \<^verbatim>\<open>Popen\<close>
  raises \<^verbatim>\<open>FileNotFoundError\<close>, the program prints one \<^verbatim>\<open>{"error": ...}\<close> result and the
  process handle is null afterwards; the loaded media path is the requested path, which
  \<^verbatim>\<open>start_vlc_rc\<close> stores before it spawns.
\<close>

theorem load_missing_executable:
  assumes "get d ''command'' = JStr ''load''"
    and "get d ''file_path'' = JStr p" and "p \<noteq> []"
    and "popen e = NotFound"
    and "vlc_process s = None \<or> \<not> wait_expires e"
  shows "fst (process_command e (JObj d) s) = None
    \<and> stdout_lines (snd (snd (process_command e (JObj d) s))) = [error_result not_found_msg]
    \<and> spawns (snd (snd (process_command e (JObj d) s))) = [vlc_args p]
    \<and> vlc_process (fst (snd (process_command e (JObj d) s))) = None
    \<and> current_file (fst (snd (process_command e (JObj d) s))) = Some p"
  using assms
  by (cases "vlc_process s")
     (auto simp add: process_command_def start_vlc_rc_def Let_def split_beta)

text \<open>
  The theorem at a \<^verbatim>\<open>load\<close> of \<^verbatim>\<open>a.mkv\<close> while process 7 plays \<^verbatim>\<open>b.mkv\<close>.
\<close>

theorem load_missing_executable_witness:
  "get [(''command'', JStr ''load''), (''file_path'', JStr ''a.mkv'')] ''command'' = JStr ''load''
   \<and> get [(''command'', JStr ''load''), (''file_path'', JStr ''a.mkv'')] ''file_path'' = JStr ''a.mkv''
   \<and> ''a.mkv'' \<noteq> []
   \<and> popen \<lparr>rc = RcOk, wait_expires = False, popen = NotFound\<rparr> = NotFound
   \<and> vlc_process \<lparr>vlc_process = Some 7, current_file = Some ''b.mkv''\<rparr> = Some 7
   \<and> \<not> wait_expires \<lparr>rc = RcOk, wait_expires = False, popen = NotFound\<rparr>
   \<and> stdout_lines (snd (snd (process_command \<lparr>rc = RcOk, wait_expires = False, popen = NotFound\<rparr>
        (JObj [(''command'', JStr ''load''), (''file_path'', JStr ''a.mkv'')])
        \<lparr>vlc_process = Some 7, current_file = Some ''b.mkv''\<rparr>))) = [error_result not_found_msg]
   \<and> fst (snd (process_command \<lparr>rc = RcOk, wait_expires = False, popen = NotFound\<rparr>
        (JObj [(''command'', JStr ''load''), (''file_path'', JStr ''a.mkv'')])
        \<lparr>vlc_process = Some 7, current_file = Some ''b.mkv''\<rparr>)) =
       \<lparr>vlc_process = None, current_file = Some ''a.mkv''\<rparr>"
proof -
  have h1: "get [(''command'', JStr ''load''), (''file_path'', JStr ''a.mkv'')] ''command'' = JStr ''load''"
    and h2: "get [(''command'', JStr ''load''), (''file_path'', JStr ''a.mkv'')] ''file_path'' = JStr ''a.mkv''"
    by (simp_all add: get_def)
  have h3: "''a.mkv'' \<noteq> []" by simp
  have h4: "popen \<lparr>rc = RcOk, wait_expires = False, popen = NotFound\<rparr> = NotFound" by simp
  have h5: "vlc_process \<lparr>vlc_process = Some 7, current_file = Some ''b.mkv''\<rparr> = None
      \<or> \<not> wait_expires \<lparr>rc = RcOk, wait_expires = False, popen = NotFound\<rparr>" by simp
  show ?thesis
    using h1 h2 load_missing_executable [OF h1 h2 h3 h4 h5]
    by simp
qed

text \<open>
  C3 as stated fails at the first \<^verbatim>\<open>load\<close> of a run with the executable missing: the
  media path is \<^verbatim>\<open>a.mkv\<close> afterwards, not null.
\<close>

theorem failed_load_records_path:
  "current_file (fst (snd (process_command \<lparr>rc = RcOk, wait_expires = False, popen = NotFound\<rparr>
      (JObj [(''command'', JStr ''load''), (''file_path'', JStr ''a.mkv'')]) initial))) = Some ''a.mkv''"
  by (simp add: initial_def process_command_def start_vlc_rc_def get_def Let_def)

text \<open>
  C5. A \<^verbatim>\<open>load\<close> whose object has no \<^verbatim>\<open>file_path\<close> key does one thing: it prints
  \<^verbatim>\<open>{"error": "Missing file path"}\<close>. It spawns nothing and the state is the one before.
\<close>

theorem load_without_file_path:
  assumes "get d ''command'' = JStr ''load''" and "map_of d ''file_path'' = None"
  shows "loop_body e (Json (JObj d)) s = (s, [Stdout (JObj [(''error'', JStr ''Missing file path'')])])
    \<and> fst (process_command e (JObj d) s) = None
    \<and> stdout_lines (snd (loop_body e (Json (JObj d)) s)) = [JObj [(''error'', JStr ''Missing file path'')]]
    \<and> spawns (snd (loop_body e (Json (JObj d)) s)) = []"
  using assms
  by (simp add: loop_body_def process_command_def get_def error_result_def)

text \<open>The theorem at \<^verbatim>\<open>{"command": "load"}\<close> while process 7 plays \<^verbatim>\<open>a.mkv\<close>.\<close>

theorem load_without_file_path_witness:
  "get [(''command'', JStr ''load'')] ''command'' = JStr ''load''
   \<and> map_of [(''command'', JStr ''load'')] ''file_path'' = None
   \<and> loop_body \<lparr>rc = RcOk, wait_expires = False, popen = Started 9 False\<rparr>
        (Json (JObj [(''command'', JStr ''load'')]))
        \<lparr>vlc_process = Some 7, current_file = Some ''a.mkv''\<rparr> =
       (\<lparr>vlc_process = Some 7, current_file = Some ''a.mkv''\<rparr>,
        [Stdout (JObj [(''error'', JStr ''Missing file path'')])])"
proof -
  have h1: "get [(''command'', JStr ''load'')] ''command'' = JStr ''load''"
    by (simp add: get_def)
  have h2: "map_of [(''command'', JStr ''load'')] ''file_path'' = None"
    by simp
  show ?thesis
    using h1 h2 load_without_file_path [OF h1 h2,
        of "\<lparr>rc = RcOk, wait_expires = False, popen = Started 9 False\<rparr>"
           "\<lparr>vlc_process = Some 7, current_file = Some ''a.mkv''\<rparr>"]
    by simp
qed

section \<open>The RC response\<close>

text \<open>
  C4. The RC send returns \<^verbatim>\<open>OK\<close> when the connect and the write succeed; on a refused
  connection or any other failure it returns a string that starts with \<^verbatim>\<open>ERROR: \<close> and so
  is not \<^verbatim>\<open>OK\<close>. Each of \<^verbatim>\<open>play_pause\<close>, \<^verbatim>\<open>stop\<close>, \<^verbatim>\<open>set_subtitle\<close> and \<^verbatim>\<open>set_audio\<close>
  prints one result whose \<^verbatim>\<open>rc_response\<close> is the string its send returned.
\<close>

theorem rc_response_surfaced:
  "fst (send_rc_command RcOk tok) = ''OK''
   \<and> (outcome \<noteq> RcOk \<longrightarrow>
        fst (send_rc_command outcome tok) \<noteq> ''OK'' \<and>
        take 7 (fst (send_rc_command outcome tok)) = ''ERROR: '')
   \<and> (get d ''command'' = JStr ''play_pause'' \<longrightarrow>
        stdout_lines (snd (snd (process_command e (JObj d) s))) =
          [JObj [(''status'', JStr ''toggled''),
                 (''rc_response'', JStr (fst (send_rc_command (rc e) ''pause'')))]])
   \<and> (get d ''command'' = JStr ''stop'' \<longrightarrow>
        stdout_lines (snd (snd (process_command e (JObj d) s))) =
          [JObj [(''status'', JStr ''stopped''),
                 (''rc_response'', JStr (fst (send_rc_command (rc e) ''stop'')))]])
   \<and> (get d ''command'' = JStr ''set_subtitle'' \<longrightarrow>
        stdout_lines (snd (snd (process_command e (JObj d) s))) =
          [JObj [(''status'', JStr ''subtitle_set''), (''id'', get d ''track_id''),
                 (''rc_response'',
                  JStr (fst (send_rc_command (rc e) (''sub_track '' @ py_str (get d ''track_id'')))))]])
   \<and> (get d ''command'' = JStr ''set_audio'' \<longrightarrow>
        stdout_lines (snd (snd (process_command e (JObj d) s))) =
          [JObj [(''status'', JStr ''audio_set''), (''id'', get d ''track_id''),
                 (''rc_response'',
                  JStr (fst (send_rc_command (rc e) (''audio_track '' @ py_str (get d ''track_id'')))))]])"
proof (intro conjI impI)
  show "fst (send_rc_command RcOk tok) = ''OK''"
    by (simp add: send_rc_command_def)
  show "fst (send_rc_command outcome tok) \<noteq> ''OK''" if "outcome \<noteq> RcOk"
    using that by (cases outcome) (simp_all add: send_rc_command_def)
  show "take 7 (fst (send_rc_command outcome tok)) = ''ERROR: ''" if "outcome \<noteq> RcOk"
    using that by (cases outcome) (simp_all add: send_rc_command_def)
next
  assume "get d ''command'' = JStr ''play_pause''"
  then show "stdout_lines (snd (snd (process_command e (JObj d) s))) =
          [JObj [(''status'', JStr ''toggled''),
                 (''rc_response'', JStr (fst (send_rc_command (rc e) ''pause'')))]]"
    by (simp add: process_command_def Let_def split_beta)
next
  assume "get d ''command'' = JStr ''stop''"
  then show "stdout_lines (snd (snd (process_command e (JObj d) s))) =
          [JObj [(''status'', JStr ''stopped''),
                 (''rc_response'', JStr (fst (send_rc_command (rc e) ''stop'')))]]"
    by (cases "vlc_process s") (simp_all add: process_command_def Let_def split_beta)
next
  assume "get d ''command'' = JStr ''set_subtitle''"
  then show "stdout_lines (snd (snd (process_command e (JObj d) s))) =
          [JObj [(''status'', JStr ''subtitle_set''), (''id'', get d ''track_id''),
                 (''rc_response'',
                  JStr (fst (send_rc_command (rc e) (''sub_track '' @ py_str (get d ''track_id'')))))]]"
    by (simp add: process_command_def Let_def split_beta)
next
  assume "get d ''command'' = JStr ''set_audio''"
  then show "stdout_lines (snd (snd (process_command e (JObj d) s))) =
          [JObj [(''status'', JStr ''audio_set''), (''id'', get d ''track_id''),
                 (''rc_response'',
                  JStr (fst (send_rc_command (rc e) (''audio_track '' @ py_str (get d ''track_id'')))))]]"
    by (simp add: process_command_def Let_def split_beta)
qed

text \<open>
  The theorem at one command of each kind, with the connection refused, failing with a
  timeout, and succeeding.
\<close>

theorem rc_response_surfaced_witness:
  "RcRefused \<noteq> RcOk
   \<and> fst (send_rc_command RcRefused ''pause'') = ''ERROR: RC not connected''
   \<and> get [(''command'', JStr ''play_pause'')] ''command'' = JStr ''play_pause''
   \<and> stdout_lines (snd (snd (process_command \<lparr>rc = RcRefused, wait_expires = False, popen = NotFound\<rparr>
        (JObj [(''command'', JStr ''play_pause'')]) initial))) =
       [JObj [(''status'', JStr ''toggled''), (''rc_response'', JStr ''ERROR: RC not connected'')]]
   \<and> get [(''command'', JStr ''stop'')] ''command'' = JStr ''stop''
   \<and> stdout_lines (snd (snd (process_command \<lparr>rc = RcFailed ''timed out'', wait_expires = False, popen = NotFound\<rparr>
        (JObj [(''command'', JStr ''stop'')]) initial))) =
       [JObj [(''status'', JStr ''stopped''), (''rc_response'', JStr ''ERROR: timed out'')]]
   \<and> get [(''command'', JStr ''set_subtitle''), (''track_id'', JInt 2)] ''command'' = JStr ''set_subtitle''
   \<and> stdout_lines (snd (snd (process_command \<lparr>rc = RcOk, wait_expires = False, popen = NotFound\<rparr>
        (JObj [(''command'', JStr ''set_subtitle''), (''track_id'', JInt 2)]) initial))) =
       [JObj [(''status'', JStr ''subtitle_set''), (''id'', JInt 2), (''rc_response'', JStr ''OK'')]]
   \<and> get [(''command'', JStr ''set_audio''), (''track_id'', JInt 1)] ''command'' = JStr ''set_audio''
   \<and> stdout_lines (snd (snd (process_command \<lparr>rc = RcRefused, wait_expires = False, popen = NotFound\<rparr>
        (JObj [(''command'', JStr ''set_audio''), (''track_id'', JInt 1)]) initial))) =
       [JObj [(''status'', JStr ''audio_set''), (''id'', JInt 1),
              (''rc_response'', JStr ''ERROR: RC not connected'')]]"
  using
    rc_response_surfaced [of "''pause''" RcRefused "[(''command'', JStr ''play_pause'')]"
      "\<lparr>rc = RcRefused, wait_expires = False, popen = NotFound\<rparr>" initial]
    rc_response_surfaced [of "''stop''" RcRefused "[(''command'', JStr ''stop'')]"
      "\<lparr>rc = RcFailed ''timed out'', wait_expires = False, popen = NotFound\<rparr>" initial]
    rc_response_surfaced [of "''pause''" RcRefused
      "[(''command'', JStr ''set_subtitle''), (''track_id'', JInt 2)]"
      "\<lparr>rc = RcOk, wait_expires = False, popen = NotFound\<rparr>" initial]
    rc_response_surfaced [of "''pause''" RcRefused
      "[(''command'', JStr ''set_audio''), (''track_id'', JInt 1)]"
      "\<lparr>rc = RcRefused, wait_expires = False, popen = NotFound\<rparr>" initial]
  by (simp add: get_def send_rc_command_response)

section \<open>Unknown commands\<close>

text \<open>
  C6. When the object has no \<^verbatim>\<open>command\<close> key, or its \<^verbatim>\<open>command\<close> is none of \<^verbatim>\<open>load\<close>,
  \<^verbatim>\<open>play_pause\<close>, \<^verbatim>\<open>stop\<close>, \<^verbatim>\<open>set_subtitle\<close>, \<^verbatim>\<open>set_audio\<close>, the program does one thing:
  it prints \<^verbatim>\<open>{"error": "Unknown command"}\<close>. The state is the one before.
\<close>

theorem unknown_command:
  assumes "map_of d ''command'' = None \<or>
           get d ''command'' \<notin> JStr ` {''load'', ''play_pause'', ''stop'', ''set_subtitle'', ''set_audio''}"
  shows "loop_body e (Json (JObj d)) s = (s, [Stdout (JObj [(''error'', JStr ''Unknown command'')])])
    \<and> fst (process_command e (JObj d) s) = None"
proof -
  have "get d ''command'' \<notin> JStr ` {''load'', ''play_pause'', ''stop'', ''set_subtitle'', ''set_audio''}"
    using assms by (auto simp add: get_def)
  then show ?thesis
    by (simp add: loop_body_def process_command_def error_result_def)
qed

text \<open>
  The theorem at \<^verbatim>\<open>{"command": "seek"}\<close> and at an object without a \<^verbatim>\<open>command\<close> key.
\<close>

theorem unknown_command_witness:
  "get [(''command'', JStr ''seek'')] ''command'' \<notin>
     JStr ` {''load'', ''play_pause'', ''stop'', ''set_subtitle'', ''set_audio''}
   \<and> loop_body \<lparr>rc = RcOk, wait_expires = False, popen = Started 9 False\<rparr>
        (Json (JObj [(''command'', JStr ''seek'')]))
        \<lparr>vlc_process = Some 7, current_file = Some ''a.mkv''\<rparr> =
       (\<lparr>vlc_process = Some 7, current_file = Some ''a.mkv''\<rparr>,
        [Stdout (JObj [(''error'', JStr ''Unknown command'')])])
   \<and> map_of [(''file_path'', JStr ''a.mkv'')] ''command'' = None
   \<and> loop_body \<lparr>rc = RcOk, wait_expires = False, popen = Started 9 False\<rparr>
        (Json (JObj [(''file_path'', JStr ''a.mkv'')]))
        \<lparr>vlc_process = Some 7, current_file = Some ''a.mkv''\<rparr> =
       (\<lparr>vlc_process = Some 7, current_file = Some ''a.mkv''\<rparr>,
        [Stdout (JObj [(''error'', JStr ''Unknown command'')])])"
proof -
  have h1: "get [(''command'', JStr ''seek'')] ''command'' \<notin>
     JStr ` {''load'', ''play_pause'', ''stop'', ''set_subtitle'', ''set_audio''}"
    by (simp add: get_def)
  have h2: "map_of [(''file_path'', JStr ''a.mkv'')] ''command'' = None"
    by simp
  show ?thesis
    using h1 h2
      unknown_command [OF disjI2 [OF h1],
        of "\<lparr>rc = RcOk, wait_expires = False, popen = Started 9 False\<rparr>"
           "\<lparr>vlc_process = Some 7, current_file = Some ''a.mkv''\<rparr>"]
      unknown_command [OF disjI1 [OF h2],
        of "\<lparr>rc = RcOk, wait_expires = False, popen = Started 9 False\<rparr>"
           "\<lparr>vlc_process = Some 7, current_file = Some ''a.mkv''\<rparr>"]
    by simp
qed

section \<open>Track selection\<close>

lemma py_str_3: "py_str (JInt 3) = ''3''"
  by (simp add: py_str_def str_int_def str_nat.simps digit_char_def)

text \<open>
  C7. \<^verbatim>\<open>set_subtitle\<close> calls the RC send with \<^verbatim>\<open>sub_track \<close> followed by the \<^verbatim>\<open>str\<close> of the
  track id and prints \<^verbatim>\<open>{"status": "subtitle_set", "id": <track_id>, "rc_response": ...}\<close>;
  \<^verbatim>\<open>set_audio\<close> does the same with \<^verbatim>\<open>audio_track \<close> and \<^verbatim>\<open>audio_set\<close>. When the connection
  succeeds, what goes over the socket is that token and a newline. With track id 3 and a
  listening player it is \<^verbatim>\<open>sub_track 3\<close> and a newline, and the result is
  \<^verbatim>\<open>{"status": "subtitle_set", "id": 3, "rc_response": "OK"}\<close>.
\<close>

theorem track_commands_send_token:
  "(get d ''command'' = JStr ''set_subtitle'' \<longrightarrow>
      snd (snd (process_command e (JObj d) s)) =
        snd (send_rc_command (rc e) (''sub_track '' @ py_str (get d ''track_id'')))
        @ [Stdout (JObj [(''status'', JStr ''subtitle_set''), (''id'', get d ''track_id''),
             (''rc_response'',
              JStr (fst (send_rc_command (rc e) (''sub_track '' @ py_str (get d ''track_id'')))))])]
      \<and> (rc e = RcOk \<longrightarrow>
           rc_sent (snd (snd (process_command e (JObj d) s))) =
             [''sub_track '' @ py_str (get d ''track_id'') @ [CHR 0x0A]]))
   \<and> (get d ''command'' = JStr ''set_subtitle'' \<and> get d ''track_id'' = JInt 3 \<and> rc e = RcOk \<longrightarrow>
      rc_sent (snd (snd (process_command e (JObj d) s))) = [''sub_track 3'' @ [CHR 0x0A]]
      \<and> stdout_lines (snd (snd (process_command e (JObj d) s))) =
          [JObj [(''status'', JStr ''subtitle_set''), (''id'', JInt 3), (''rc_response'', JStr ''OK'')]])
   \<and> (get d ''command'' = JStr ''set_audio'' \<longrightarrow>
      snd (snd (process_command e (JObj d) s)) =
        snd (send_rc_command (rc e) (''audio_track '' @ py_str (get d ''track_id'')))
        @ [Stdout (JObj [(''status'', JStr ''audio_set''), (''id'', get d ''track_id''),
             (''rc_response'',
              JStr (fst (send_rc_command (rc e) (''audio_track '' @ py_str (get d ''track_id'')))))])]
      \<and> (rc e = RcOk \<longrightarrow>
           rc_sent (snd (snd (process_command e (JObj d) s))) =
             [''audio_track '' @ py_str (get d ''track_id'') @ [CHR 0x0A]]))"
proof -
  have sub: "snd (snd (process_command e (JObj d) s)) =
        snd (send_rc_command (rc e) (''sub_track '' @ py_str (get d ''track_id'')))
        @ [Stdout (JObj [(''status'', JStr ''subtitle_set''), (''id'', get d ''track_id''),
             (''rc_response'',
              JStr (fst (send_rc_command (rc e) (''sub_track '' @ py_str (get d ''track_id'')))))])]"
    if "get d ''command'' = JStr ''set_subtitle''"
    using that by (simp add: process_command_def Let_def split_beta)
  have aud: "snd (snd (process_command e (JObj d) s)) =
        snd (send_rc_command (rc e) (''audio_track '' @ py_str (get d ''track_id'')))
        @ [Stdout (JObj [(''status'', JStr ''audio_set''), (''id'', get d ''track_id''),
             (''rc_response'',
              JStr (fst (send_rc_command (rc e) (''audio_track '' @ py_str (get d ''track_id'')))))])]"
    if "get d ''command'' = JStr ''set_audio''"
    using that by (simp add: process_command_def Let_def split_beta)
  show ?thesis
    using sub aud
    by (auto simp add: send_rc_command_sent send_rc_command_response py_str_3)
qed

text \<open>
  The theorem at \<^verbatim>\<open>{"command": "set_subtitle", "track_id": 3}\<close> and at
  \<^verbatim>\<open>{"command": "set_audio", "track_id": "ja"}\<close>, with the player listening.
\<close>

theorem track_commands_send_token_witness:
  "get [(''command'', JStr ''set_subtitle''), (''track_id'', JInt 3)] ''command'' = JStr ''set_subtitle''
   \<and> get [(''command'', JStr ''set_subtitle''), (''track_id'', JInt 3)] ''track_id'' = JInt 3
   \<and> rc \<lparr>rc = RcOk, wait_expires = False, popen = NotFound\<rparr> = RcOk
   \<and> snd (snd (process_command \<lparr>rc = RcOk, wait_expires = False, popen = NotFound\<rparr>
        (JObj [(''command'', JStr ''set_subtitle''), (''track_id'', JInt 3)]) initial)) =
       [Sleep 50, RcSend (''sub_track 3'' @ [CHR 0x0A]),
        Stdout (JObj [(''status'', JStr ''subtitle_set''), (''id'', JInt 3), (''rc_response'', JStr ''OK'')])]
   \<and> get [(''command'', JStr ''set_audio''), (''track_id'', JStr ''ja'')] ''command'' = JStr ''set_audio''
   \<and> snd (snd (process_command \<lparr>rc = RcOk, wait_expires = False, popen = NotFound\<rparr>
        (JObj [(''command'', JStr ''set_audio''), (''track_id'', JStr ''ja'')]) initial)) =
       [Sleep 50, RcSend (''audio_track ja'' @ [CHR 0x0A]),
        Stdout (JObj [(''status'', JStr ''audio_set''), (''id'', JStr ''ja''), (''rc_response'', JStr ''OK'')])]"
  using
    track_commands_send_token [of "[(''command'', JStr ''set_subtitle''), (''track_id'', JInt 3)]"
      "\<lparr>rc = RcOk, wait_expires = False, popen = NotFound\<rparr>" initial]
    track_commands_send_token [of "[(''command'', JStr ''set_audio''), (''track_id'', JStr ''ja'')]"
      "\<lparr>rc = RcOk, wait_expires = False, popen = NotFound\<rparr>" initial]
  by (simp add: get_def send_rc_command_def py_str_def str_int_def str_nat.simps digit_char_def)

text \<open>
  C10. Without a \<^verbatim>\<open>track_id\<close> key, \<^verbatim>\<open>set_subtitle\<close> and \<^verbatim>\<open>set_audio\<close> return normally:
  the RC send is called with \<^verbatim>\<open>sub_track None\<close> (\<^verbatim>\<open>audio_track None\<close>) and the only result
  printed has the success shape with \<^verbatim>\<open>id\<close> null, so no \<^verbatim>\<open>{"error": ...}\<close> result appears.
\<close>

theorem track_id_missing:
  assumes "map_of d ''track_id'' = None"
    and "get d ''command'' = JStr c"
    and "(c, tok, status) = (''set_subtitle'', ''sub_track None'', ''subtitle_set'')
       \<or> (c, tok, status) = (''set_audio'', ''audio_track None'', ''audio_set'')"
  shows "process_command e (JObj d) s =
      (None, s,
       snd (send_rc_command (rc e) tok)
       @ [Stdout (JObj [(''status'', JStr status), (''id'', JNull),
                        (''rc_response'', JStr (fst (send_rc_command (rc e) tok)))])])
    \<and> (rc e = RcOk \<longrightarrow> rc_sent (snd (snd (process_command e (JObj d) s))) = [tok @ [CHR 0x0A]])
    \<and> stdout_lines (snd (snd (process_command e (JObj d) s))) =
        [JObj [(''status'', JStr status), (''id'', JNull),
               (''rc_response'', JStr (fst (send_rc_command (rc e) tok)))]]"
proof -
  have t: "get d ''track_id'' = JNull"
    using assms(1) by (simp add: get_def)
  have n: "py_str JNull = ''None''"
    by (simp add: py_str_def)
  from assms(3) show ?thesis
  proof
    assume "(c, tok, status) = (''set_subtitle'', ''sub_track None'', ''subtitle_set'')"
    then show ?thesis
      using assms(2) t n
      by (simp add: process_command_def Let_def split_beta send_rc_command_sent)
  next
    assume "(c, tok, status) = (''set_audio'', ''audio_track None'', ''audio_set'')"
    then show ?thesis
      using assms(2) t n
      by (simp add: process_command_def Let_def split_beta send_rc_command_sent)
  qed
qed

text \<open>
  The theorem at \<^verbatim>\<open>{"command": "set_subtitle"}\<close> and \<^verbatim>\<open>{"command": "set_audio"}\<close>.
\<close>

theorem track_id_missing_witness:
  "map_of [(''command'', JStr ''set_subtitle'')] ''track_id'' = None
   \<and> get [(''command'', JStr ''set_subtitle'')] ''command'' = JStr ''set_subtitle''
   \<and> process_command \<lparr>rc = RcOk, wait_expires = False, popen = NotFound\<rparr>
        (JObj [(''command'', JStr ''set_subtitle'')]) initial =
       (None, initial,
        [Sleep 50, RcSend (''sub_track None'' @ [CHR 0x0A]),
         Stdout (JObj [(''status'', JStr ''subtitle_set''), (''id'', JNull), (''rc_response'', JStr ''OK'')])])
   \<and> map_of [(''command'', JStr ''set_audio'')] ''track_id'' = None
   \<and> get [(''command'', JStr ''set_audio'')] ''command'' = JStr ''set_audio''
   \<and> process_command \<lparr>rc = RcOk, wait_expires = False, popen = NotFound\<rparr>
        (JObj [(''command'', JStr ''set_audio'')]) initial =
       (None, initial,
        [Sleep 50, RcSend (''audio_track None'' @ [CHR 0x0A]),
         Stdout (JObj [(''status'', JStr ''audio_set''), (''id'', JNull), (''rc_response'', JStr ''OK'')])])"
proof -
  have h1: "map_of [(''command'', JStr ''set_subtitle'')] ''track_id'' = None"
    and h2: "get [(''command'', JStr ''set_subtitle'')] ''command'' = JStr ''set_subtitle''"
    and h3: "map_of [(''command'', JStr ''set_audio'')] ''track_id'' = None"
    and h4: "get [(''command'', JStr ''set_audio'')] ''command'' = JStr ''set_audio''"
    by (simp_all add: get_def)
  show ?thesis
    using h1 h2 h3 h4
      track_id_missing [OF h1 h2 disjI1 [OF refl],
        of "\<lparr>rc = RcOk, wait_expires = False, popen = NotFound\<rparr>" initial]
      track_id_missing [OF h3 h4 disjI2 [OF refl],
        of "\<lparr>rc = RcOk, wait_expires = False, popen = NotFound\<rparr>" initial]
    by (simp add: send_rc_command_def)
qed

section \<open>Stop twice\<close>

lemma stop_step:
  assumes "get d ''command'' = JStr ''stop''"
  shows "loop_body e (Json (JObj d)) s =
     (s\<lparr>vlc_process := None\<rparr>,
      snd (send_rc_command (rc e) ''stop'')
      @ (case vlc_process s of None \<Rightarrow> [] | Some p \<Rightarrow> [Terminate p])
      @ [Stdout (JObj [(''status'', JStr ''stopped''),
                       (''rc_response'', JStr (fst (send_rc_command (rc e) ''stop'')))])])"
  using assms by (simp add: loop_body_def process_command_def Let_def split_beta)

text \<open>
  C8. From every state, two \<^verbatim>\<open>stop\<close> commands in a row print two results
  \<^verbatim>\<open>{"status": "stopped", "rc_response": ...}\<close>; the process handle is null after the first
  and after the second. The second changes nothing in the state and terminates nothing.
\<close>

theorem stop_twice:
  assumes "get d1 ''command'' = JStr ''stop''" and "get d2 ''command'' = JStr ''stop''"
  shows "stdout_lines (snd (main_loop [(Json (JObj d1), e1), (Json (JObj d2), e2)] s)) =
      [JObj [(''status'', JStr ''stopped''),
             (''rc_response'', JStr (fst (send_rc_command (rc e1) ''stop'')))],
       JObj [(''status'', JStr ''stopped''),
             (''rc_response'', JStr (fst (send_rc_command (rc e2) ''stop'')))]]
    \<and> vlc_process (fst (loop_body e1 (Json (JObj d1)) s)) = None
    \<and> vlc_process (fst (main_loop [(Json (JObj d1), e1), (Json (JObj d2), e2)] s)) = None
    \<and> fst (main_loop [(Json (JObj d1), e1), (Json (JObj d2), e2)] s) =
        fst (loop_body e1 (Json (JObj d1)) s)
    \<and> terminated (snd (loop_body e2 (Json (JObj d2)) (fst (loop_body e1 (Json (JObj d1)) s)))) = []"
  by (cases "vlc_process s") (simp_all add: stop_step [OF assms(1)] stop_step [OF assms(2)])

text \<open>
  The theorem at a state that tracks process 7: the first \<^verbatim>\<open>stop\<close> reaches the player, the
  second finds the connection refused.
\<close>

theorem stop_twice_witness:
  "get [(''command'', JStr ''stop'')] ''command'' = JStr ''stop''
   \<and> stdout_lines (snd (main_loop
        [(Json (JObj [(''command'', JStr ''stop'')]), \<lparr>rc = RcOk, wait_expires = False, popen = NotFound\<rparr>),
         (Json (JObj [(''command'', JStr ''stop'')]), \<lparr>rc = RcRefused, wait_expires = False, popen = NotFound\<rparr>)]
        \<lparr>vlc_process = Some 7, current_file = Some ''a.mkv''\<rparr>)) =
      [JObj [(''status'', JStr ''stopped''), (''rc_response'', JStr ''OK'')],
       JObj [(''status'', JStr ''stopped''), (''rc_response'', JStr ''ERROR: RC not connected'')]]
   \<and> vlc_process (fst (main_loop
        [(Json (JObj [(''command'', JStr ''stop'')]), \<lparr>rc = RcOk, wait_expires = False, popen = NotFound\<rparr>),
         (Json (JObj [(''command'', JStr ''stop'')]), \<lparr>rc = RcRefused, wait_expires = False, popen = NotFound\<rparr>)]
        \<lparr>vlc_process = Some 7, current_file = Some ''a.mkv''\<rparr>)) = None"
proof -
  have h: "get [(''command'', JStr ''stop'')] ''command'' = JStr ''stop''"
    by (simp add: get_def)
  show ?thesis
    using h stop_twice [OF h h,
        of "\<lparr>rc = RcOk, wait_expires = False, popen = NotFound\<rparr>"
           "\<lparr>rc = RcRefused, wait_expires = False, popen = NotFound\<rparr>"
           "\<lparr>vlc_process = Some 7, current_file = Some ''a.mkv''\<rparr>"]
    by (simp add: send_rc_command_response)
qed

section \<open>JSON that is not an object\<close>

text \<open>
  C9. A line that parses to a value other than an object makes \<^verbatim>\<open>command_data.get\<close> raise
  \<^verbatim>\<open>AttributeError\<close>. The loop catches it and writes one line to the diagnostic stream,
  nothing else: no result line, the state as before. The loop then goes on with the rest
  of the input from that same state.
\<close>

theorem non_object_is_logged:
  assumes "\<forall>d. v \<noteq> JObj d"
  shows "process_command e v s = (Some (AttributeError (py_type_name v)), s, [])
    \<and> loop_body e (Json v) s = (s, [StderrUnhandled (AttributeError (py_type_name v))])
    \<and> stdout_lines (snd (loop_body e (Json v) s)) = []
    \<and> diagnostics (snd (loop_body e (Json v) s)) =
        [StderrUnhandled (AttributeError (py_type_name v))]
    \<and> main_loop ((Json v, e) # rest) s =
        (fst (main_loop rest s),
         StderrUnhandled (AttributeError (py_type_name v)) # snd (main_loop rest s))"
  using assms by (cases v) (simp_all add: loop_body_def process_command_def split_beta)

text \<open>
  The theorem at the line \<^verbatim>\<open>[1]\<close>, followed by \<^verbatim>\<open>{"command": "seek"}\<close>: the only result
  line is the one of the second line.
\<close>

theorem non_object_is_logged_witness:
  "JArr [JInt 1] \<noteq> JObj []
   \<and> loop_body \<lparr>rc = RcOk, wait_expires = False, popen = NotFound\<rparr> (Json (JArr [JInt 1]))
        \<lparr>vlc_process = Some 7, current_file = Some ''a.mkv''\<rparr> =
       (\<lparr>vlc_process = Some 7, current_file = Some ''a.mkv''\<rparr>,
        [StderrUnhandled (AttributeError ''list'')])
   \<and> stdout_lines (snd (main_loop
        [(Json (JArr [JInt 1]), \<lparr>rc = RcOk, wait_expires = False, popen = NotFound\<rparr>),
         (Json (JObj [(''command'', JStr ''seek'')]), \<lparr>rc = RcOk, wait_expires = False, popen = NotFound\<rparr>)]
        \<lparr>vlc_process = Some 7, current_file = Some ''a.mkv''\<rparr>)) =
       [JObj [(''error'', JStr ''Unknown command'')]]"
proof -
  have h: "\<forall>d. JArr [JInt 1] \<noteq> JObj d" by simp
  show ?thesis
    using non_object_is_logged [OF h,
        of "\<lparr>rc = RcOk, wait_expires = False, popen = NotFound\<rparr>"
           "\<lparr>vlc_process = Some 7, current_file = Some ''a.mkv''\<rparr>"
           "[(Json (JObj [(''command'', JStr ''seek'')]), \<lparr>rc = RcOk, wait_expires = False, popen = NotFound\<rparr>)]"]
    by (simp add: loop_body_def process_command_def get_def error_result_def)
qed

end
